theory Spec2Isabelle
  imports Main "HOL-Library.AList"
begin

section \<open>Python strings\<close>

text \<open>
  A Python \<open>str\<close> is a sequence of Unicode code points, and \<open>len\<close> counts code points.
  A string is therefore modelled as a list of code points (natural numbers).
  \<open>ascii\<close> turns an Isabelle string literal into such a list.
\<close>

type_synonym ustr = "nat list"

definition ascii :: "string \<Rightarrow> ustr" where
  "ascii s = map of_char s"

text \<open>
  \<open>str.isspace\<close> for one code point; \<open>str.strip()\<close> without argument removes exactly
  these code points from both ends.
\<close>

definition isspace :: "nat \<Rightarrow> bool" where
  "isspace c \<longleftrightarrow>
     (9 \<le> c \<and> c \<le> 13) \<or> (28 \<le> c \<and> c \<le> 32) \<or> c = 133 \<or> c = 160 \<or> c = 5760 \<or>
     (8192 \<le> c \<and> c \<le> 8202) \<or> c = 8232 \<or> c = 8233 \<or> c = 8239 \<or> c = 8287 \<or> c = 12288"

definition strip :: "ustr \<Rightarrow> ustr" where
  "strip s = rev (dropWhile isspace (rev (dropWhile isspace s)))"

text \<open>\<open>text.replace('\n', ' ')\<close>: every line feed (10) becomes a space (32).\<close>

definition replace_newlines :: "ustr \<Rightarrow> ustr" where
  "replace_newlines s = map (\<lambda>c. if c = 10 then 32 else c) s"

text \<open>
  \<open>s.split(sep)\<close> for a non-empty separator: scan from the left, cut at every
  non-overlapping occurrence of \<open>sep\<close>. \<open>cur\<close> is the piece collected so far.
  (Python raises \<open>ValueError\<close> for the empty separator; the only separator used here is
  the two-character \<open>". "\<close>.)
\<close>

fun split_from :: "ustr \<Rightarrow> ustr \<Rightarrow> ustr \<Rightarrow> ustr list" where
  "split_from sep cur [] = [cur]"
| "split_from sep cur (x # xs) =
     (if sep \<noteq> [] \<and> take (length sep) (x # xs) = sep
      then cur # split_from sep [] (drop (length sep - 1) xs)
      else split_from sep (cur @ [x]) xs)"

definition split :: "ustr \<Rightarrow> ustr \<Rightarrow> ustr list" where
  "split s sep = split_from sep [] s"

section \<open>chapter_translate.py: the chunker\<close>

text \<open>The separator \<open>". "\<close> (full stop 46, space 32).\<close>

definition dot_space :: ustr where
  "dot_space = [46, 32]"

text \<open>
  The \<open>for sentence in sentences\<close> loop of \<open>split_text_into_chunks\<close>, with the two
  loop variables \<open>chunks\<close> and \<open>current_chunk\<close> passed explicitly.
  \<open>max_chunk_size\<close> is a Python integer, hence \<open>int\<close>.
\<close>

fun chunk_loop :: "int \<Rightarrow> ustr list \<Rightarrow> ustr list \<Rightarrow> ustr \<Rightarrow> ustr list \<times> ustr" where
  "chunk_loop max_chunk_size [] chunks current_chunk = (chunks, current_chunk)"
| "chunk_loop max_chunk_size (sentence # rest) chunks current_chunk =
     (if int (length current_chunk) + int (length sentence) + 2 \<le> max_chunk_size
      then chunk_loop max_chunk_size rest chunks (current_chunk @ sentence @ dot_space)
      else chunk_loop max_chunk_size rest
             (if current_chunk \<noteq> [] then chunks @ [strip current_chunk] else chunks)
             (sentence @ dot_space))"

definition sentences_of :: "ustr \<Rightarrow> ustr list" where
  "sentences_of text = split (replace_newlines text) dot_space"

definition split_text_into_chunks :: "ustr \<Rightarrow> int \<Rightarrow> ustr list" where
  "split_text_into_chunks text max_chunk_size =
     (case chunk_loop max_chunk_size (sentences_of text) [] [] of
        (chunks, current_chunk) \<Rightarrow>
          (if current_chunk \<noteq> [] then chunks @ [strip current_chunk] else chunks))"


text \<open>Two predicates used to state what the chunker produces.\<close>

definition ends_dot :: "ustr \<Rightarrow> bool" where
  "ends_dot u \<longleftrightarrow> u \<noteq> [] \<and> last u = 46"

definition dotted :: "ustr \<Rightarrow> bool" where
  "dotted cur \<longleftrightarrow> (\<exists>p. cur = p @ dot_space)"

text \<open>
  Size invariants of the chunk loop, relative to a list \<open>frs\<close> of sentence fragments:
  a unit is within the bound or is one trimmed, re-suffixed fragment; the buffer is within
  the bound or holds exactly one re-suffixed fragment.
\<close>

definition sized :: "int \<Rightarrow> ustr list \<Rightarrow> ustr \<Rightarrow> bool" where
  "sized m frs u \<longleftrightarrow> int (length u) \<le> m \<or> (\<exists>s \<in> set frs. u = strip (s @ dot_space))"

definition buffer_ok :: "int \<Rightarrow> ustr list \<Rightarrow> ustr \<Rightarrow> bool" where
  "buffer_ok m frs cur \<longleftrightarrow> int (length cur) \<le> m \<or> (\<exists>s \<in> set frs. cur = s @ dot_space)"

section \<open>glossary.py\<close>

text \<open>
  The class \<open>Glossary\<close> holds three dictionaries. A Python \<open>dict\<close> keeps its keys in
  insertion order, assigning to an existing key keeps its position and a new key goes to
  the end: an association list updated with \<open>AList.update\<close>. \<open>dict_get d k v\<close> is
  \<open>d.get(k, v)\<close> and \<open>dict_has d k\<close> is \<open>k in d\<close>.
\<close>

record glossary =
  terms :: "(ustr \<times> ustr) list"
  usage_count :: "(ustr \<times> int) list"
  contexts :: "(ustr \<times> ustr list) list"

definition new_glossary :: glossary where
  "new_glossary = \<lparr>terms = [], usage_count = [], contexts = []\<rparr>"

definition dict_get :: "('k \<times> 'v) list \<Rightarrow> 'k \<Rightarrow> 'v \<Rightarrow> 'v" where
  "dict_get d k dflt = (case map_of d k of None \<Rightarrow> dflt | Some v \<Rightarrow> v)"

definition dict_has :: "('k \<times> 'v) list \<Rightarrow> 'k \<Rightarrow> bool" where
  "dict_has d k \<longleftrightarrow> map_of d k \<noteq> None"

text \<open>\<open>not s or not s.strip()\<close>: the string is empty or consists of whitespace.\<close>

definition blank :: "ustr \<Rightarrow> bool" where
  "blank s \<longleftrightarrow> s = [] \<or> strip s = []"

text \<open>
  The \<open>if context:\<close> block of \<open>add_term\<close>, for a non-empty context \<open>c\<close>: create the
  history if the term has none, append \<open>c\<close> if it is \<open>not in\<close> the history, and cut the
  history to its last five entries (\<open>[-5:]\<close>) when it has grown beyond five.
\<close>

definition add_context :: "(ustr \<times> ustr list) list \<Rightarrow> ustr \<Rightarrow> ustr \<Rightarrow> (ustr \<times> ustr list) list" where
  "add_context ctx original c =
     (let ctx1 = (if dict_has ctx original then ctx else AList.update original [] ctx);
          history = dict_get ctx1 original []
      in if c \<in> set history then ctx1
         else let appended = history @ [c]
              in AList.update original
                   (if length appended > 5 then drop (length appended - 5) appended else appended)
                   ctx1)"

text \<open>
  \<open>add_term(original, translated, context=None)\<close>. The optional context is an
  \<open>option\<close>; \<open>if context:\<close> is false for \<open>None\<close> and for the empty string.
\<close>

definition add_term :: "glossary \<Rightarrow> ustr \<Rightarrow> ustr \<Rightarrow> ustr option \<Rightarrow> glossary" where
  "add_term g original translated context_arg =
     (if original = [] \<or> strip original = [] then g
      else
        let original = strip original;
            translated = (if translated \<noteq> [] then strip translated else []);
            g1 = g\<lparr>terms := AList.update original translated (terms g)\<rparr>;
            g2 = g1\<lparr>usage_count :=
                    AList.update original (dict_get (usage_count g1) original 0 + 1) (usage_count g1)\<rparr>
        in case context_arg of
             None \<Rightarrow> g2
           | Some c \<Rightarrow>
               if c = [] then g2 else g2\<lparr>contexts := add_context (contexts g2) original c\<rparr>)"

definition get_translation :: "glossary \<Rightarrow> ustr \<Rightarrow> ustr option" where
  "get_translation g original =
     (if original = [] \<or> strip original = [] then None
      else
        case map_of (terms g) (strip original) of
          None \<Rightarrow> None
        | Some translation \<Rightarrow>
            if translation \<noteq> [] \<and> strip translation \<noteq> [] then Some translation else None)"

definition has_term :: "glossary \<Rightarrow> ustr \<Rightarrow> bool" where
  "has_term g original = (if original \<noteq> [] then dict_has (terms g) (strip original) else False)"

definition get_usage_count :: "glossary \<Rightarrow> ustr \<Rightarrow> int" where
  "get_usage_count g original =
     dict_get (usage_count g) (if original \<noteq> [] then strip original else []) 0"

definition get_context :: "glossary \<Rightarrow> ustr \<Rightarrow> ustr list" where
  "get_context g original =
     dict_get (contexts g) (if original \<noteq> [] then strip original else []) []"

definition get_all_terms :: "glossary \<Rightarrow> (ustr \<times> ustr) list" where
  "get_all_terms g = terms g"

text \<open>
  \<open>merge_glossary(other_glossary, prefer_existing=True)\<close>: \<open>merge_item\<close> is the body
  of the loop over the items of a copy of the other glossary's terms, \<open>merge_loop\<close> the
  loop, with \<open>self\<close> passed as state. The two glossaries are two objects;
  \<open>other_glossary\<close> is only read.
\<close>

definition merge_item :: "glossary \<Rightarrow> bool \<Rightarrow> ustr \<times> ustr \<Rightarrow> glossary \<Rightarrow> glossary" where
  "merge_item other_glossary prefer_existing item g =
     (case item of (original, translated) \<Rightarrow>
        if dict_has (terms g) original then
          let g1 = (if \<not> prefer_existing \<or> dict_get (terms g) original [] = []
                    then add_term g original translated None else g)
          in g1\<lparr>usage_count :=
                  AList.update original
                    (dict_get (usage_count g1) original 0 + get_usage_count other_glossary original)
                    (usage_count g1)\<rparr>
        else
          let g1 = add_term g original translated None
          in g1\<lparr>usage_count :=
                  AList.update original (get_usage_count other_glossary original) (usage_count g1)\<rparr>)"

fun merge_loop :: "glossary \<Rightarrow> bool \<Rightarrow> (ustr \<times> ustr) list \<Rightarrow> glossary \<Rightarrow> glossary" where
  "merge_loop other_glossary prefer_existing [] g = g"
| "merge_loop other_glossary prefer_existing (item # rest) g =
     merge_loop other_glossary prefer_existing rest (merge_item other_glossary prefer_existing item g)"

definition merge_glossary :: "glossary \<Rightarrow> glossary \<Rightarrow> bool \<Rightarrow> glossary" where
  "merge_glossary g other_glossary prefer_existing =
     merge_loop other_glossary prefer_existing (get_all_terms other_glossary) g"

text \<open>
  The keys of a glossary's terms are trimmed and non-empty (the data model's "exact
  (trimmed) source term"): \<open>add_term\<close> only ever stores such keys. \<open>load_from_file\<close>
  does not check the keys it reads, so this is a property a glossary may lack.
\<close>

definition trimmed_keys :: "glossary \<Rightarrow> bool" where
  "trimmed_keys g \<longleftrightarrow> (\<forall>k \<in> fst ` set (terms g). k \<noteq> [] \<and> strip k = k)"

section \<open>Exceptions and the runtime\<close>

text \<open>
  Every exception the modelled code raises or catches is a value; a call that may raise
  returns \<open>error + 'a\<close>, with \<open>Inl\<close> for the exception. \<open>PyException\<close> stands for any
  other subclass of \<open>Exception\<close>.
\<close>

datatype error =
  FileNotFoundError | ImportError | LangDetectException | UnicodeDecodeError
  | UnboundLocalError | PyException

text \<open>
  The dictionary \<open>inputs\<close> passed to \<open>model_session.run(None, inputs)\<close>, with one
  field for each of its keys \<open>'input_text'\<close>, \<open>'source_lang'\<close> and \<open>'target_lang'\<close>,
  and an ONNX session: a call that returns the output lists or raises.
\<close>

record inputs =
  feed_input_text :: "ustr list"
  feed_source_lang :: "ustr list"
  feed_target_lang :: "ustr list"

type_synonym session = "inputs \<Rightarrow> error + ustr list list"

text \<open>
  What the code takes from outside the repository, as parameters:
  the built-ins \<open>str.lower\<close> and \<open>str.upper\<close> (Unicode case mapping);
  the \<open>langdetect\<close> library, \<open>None\<close> when its import fails, otherwise its \<open>detect\<close>;
  the \<open>onnxruntime\<close> library, \<open>None\<close> when its import fails, otherwise its
  \<open>InferenceSession\<close> constructor; \<open>os.path.exists\<close>; opening and reading a file with an
  encoding; and the tone pass \<open>apply_emotion\<close>, which the chapter pipeline calls as a
  text-to-text collaborator that may raise.
\<close>

record runtime =
  str_lower :: "ustr \<Rightarrow> ustr"
  str_upper :: "ustr \<Rightarrow> ustr"
  langdetect :: "(ustr \<Rightarrow> error + ustr) option"
  onnxruntime :: "(ustr \<Rightarrow> error + session) option"
  path_exists :: "ustr \<Rightarrow> bool"
  open_read :: "ustr \<Rightarrow> ustr \<Rightarrow> error + ustr"
  apply_emotion :: "ustr \<Rightarrow> error + ustr"

section \<open>detect_lang.py\<close>

text \<open>
  \<open>s.count(sub)\<close> for a non-empty \<open>sub\<close>: the number of non-overlapping occurrences,
  scanning from the left. (Every marker below is non-empty.)
\<close>

fun str_count :: "ustr \<Rightarrow> ustr \<Rightarrow> nat" where
  "str_count sub [] = 0"
| "str_count sub (x # xs) =
     (if sub \<noteq> [] \<and> take (length sub) (x # xs) = sub
      then 1 + str_count sub (drop (length sub - 1) xs)
      else str_count sub xs)"

text \<open>
  The marker table of \<open>fallback_language_detection\<close>, in the order of the dictionary
  literal. Markers with characters beyond ASCII are given by their code points.
\<close>

definition patterns :: "(ustr \<times> ustr list) list" where
  "patterns =
   [
    (ascii ''es'',
     [
      ascii ''el '', ascii ''la '', ascii ''de '', ascii ''que '', ascii ''y '', ascii ''a '',
      ascii ''en '', ascii ''un '', ascii ''es '', ascii ''se '', ascii ''no '', ascii ''te '',
      ascii ''lo '', ascii ''le '', ascii ''da '', ascii ''su '', ascii ''por '',
      ascii ''son '', ascii ''con '', ascii ''para '', ascii ''una '', ascii ''son '',
      ascii ''del '', ascii ''al '', [113, 117, 233, 32], [109, 225, 115]]),
    (ascii ''fr'',
     [
      ascii ''le '', ascii ''de '', ascii ''et '', [224, 32], ascii ''un '', ascii ''il '',
      [234, 116, 114, 101, 32], ascii ''et '', ascii ''en '', ascii ''avoir '', ascii ''que '',
      ascii ''pour '', ascii ''dans '', ascii ''ce '', ascii ''son '', ascii ''une '',
      ascii ''sur '', ascii ''avec '', ascii ''ne '', ascii ''se '', ascii ''pas '',
      ascii ''tout '', ascii ''plus '', ascii ''par '', ascii ''grand'', [111, 249],
      ascii ''ou'', ascii ''qui'']),
    (ascii ''de'',
     [
      ascii ''der '', ascii ''die '', ascii ''und '', ascii ''in '', ascii ''den '',
      ascii ''von '', ascii ''zu '', ascii ''das '', ascii ''mit '', ascii ''sich '',
      ascii ''des '', ascii ''auf '', [102, 252, 114, 32], ascii ''ist '', ascii ''im '',
      ascii ''dem '', ascii ''nicht '', ascii ''ein '', ascii ''eine '', ascii ''als '',
      ascii ''auch '', ascii ''es '', ascii ''an '', ascii ''werden'', ascii ''aus'',
      ascii ''er'', ascii ''hat'', ascii ''dass'']),
    (ascii ''it'',
     [
      ascii ''il '', ascii ''di '', ascii ''che '', ascii ''e '', ascii ''la '',
      ascii ''per '', ascii ''un '', ascii ''in '', ascii ''con '', ascii ''del '',
      ascii ''da '', ascii ''a '', ascii ''al '', ascii ''sono '', ascii ''le '',
      ascii ''si '', ascii ''gli '', ascii ''una'', ascii ''dei'', ascii ''nel'',
      ascii ''alla'', ascii ''come'', [112, 105, 249], ascii ''anche'', ascii ''tutto'',
      [103, 105, 224]]),
    (ascii ''pt'',
     [
      ascii ''de '', ascii ''a '', ascii ''o '', ascii ''que '', ascii ''e '', ascii ''do '',
      ascii ''da '', ascii ''em '', ascii ''um '', ascii ''para '', [233, 32], ascii ''com '',
      [110, 227, 111, 32], ascii ''uma '', ascii ''os '', ascii ''no '', ascii ''se '',
      ascii ''na '', ascii ''por '', ascii ''mais'', ascii ''das'', ascii ''dos'',
      ascii ''como'', ascii ''mas'', ascii ''foi'', ascii ''ao'', ascii ''ele'']),
    (ascii ''ja'',
     [
      [12398], [12395], [12399], [12434], [12383], [12364], [12391], [12390], [12392], [12375],
      [12428], [12373], [12354, 12427], [12356, 12427], [12418], [12377, 12427],
      [12363, 12425], [12394], [12371, 12392], [12392, 12375, 12390], [12356], [12420],
      [12428, 12427], [12394, 12393], [12394, 12387], [12414, 12383], [12381, 12398],
      [12371, 12428]]),
    (ascii ''ko'',
     [
      [51060], [51032], [44032], [51012], [45716], [50640], [44284], [47196], [51004, 47196],
      [50640, 49436], [50752], [54620], [54616], [46104], [51080], [46308], [44163], [49688],
      [46321], [44057], [54980], [51204], [45796, 49884], [46608], [53685, 54644],
      [50948, 54644], [45824, 54620], [46384, 47480]]),
    (ascii ''zh'',
     [
      [30340], [19968], [26159], [22312], [19981], [20102], [26377], [21644], [20154], [36825],
      [20013], [22823], [20026], [19978], [20010], [22269], [25105], [20197], [35201], [20182],
      [26102], [26469], [29992], [20204], [29983], [21040], [20316], [22320], [20110], [20986],
      [23601]]),
    (ascii ''ru'',
     [
      [1080, 32], [1074, 32], [1085, 1077, 32], [1085, 1072, 32], [1103, 32],
      [1073, 1099, 1090, 1100, 32], [1086, 1085, 32], [1089, 32], [1095, 1090, 1086, 32],
      [1072, 32], [1087, 1086, 32], [1101, 1090, 1086, 32], [1086, 1085, 1072, 32],
      [1101, 1090, 1086, 1090, 32], [1082, 32], [1085, 1086, 32], [1086, 1085, 1080, 32],
      [1084, 1099, 32], [1082, 1072, 1082, 32], [1080, 1079, 32], [1091, 32],
      [1082, 1086, 1090, 1086, 1088, 1099, 1081, 32], [1090, 1086, 32], [1079, 1072, 32],
      [1089, 1074, 1086, 1081, 32], [1095, 1090, 1086, 32], [1078, 1077]])]"

text \<open>\<open>max(scores, key=scores.get)\<close>: the first key with the greatest score.\<close>

fun max_from :: "('k \<times> nat) \<Rightarrow> ('k \<times> nat) list \<Rightarrow> 'k \<times> nat" where
  "max_from best [] = best"
| "max_from best (kv # rest) = max_from (if snd best < snd kv then kv else best) rest"

definition any_in_range :: "nat \<Rightarrow> nat \<Rightarrow> ustr \<Rightarrow> bool" where
  "any_in_range lo hi s = list_ex (\<lambda>c. lo \<le> c \<and> c \<le> hi) s"

text \<open>
  The character-based part of \<open>fallback_language_detection\<close>: the chain of
  \<open>if any(ord(char) >= ... and ord(char) <= ... for char in text)\<close> tests, ending in the
  default \<open>'en'\<close>.
\<close>

definition script_detection :: "ustr \<Rightarrow> ustr" where
  "script_detection text =
     (if any_in_range 0x4E00 0x9FFF text then ascii ''zh''
      else if any_in_range 0x3040 0x309F text then ascii ''ja''
      else if any_in_range 0x30A0 0x30FF text then ascii ''ja''
      else if any_in_range 0xAC00 0xD7AF text then ascii ''ko''
      else if any_in_range 0x0400 0x04FF text then ascii ''ru''
      else ascii ''en'')"

definition fallback_language_detection :: "runtime \<Rightarrow> ustr \<Rightarrow> ustr" where
  "fallback_language_detection rt text =
     (if text = [] then ascii ''en''
      else
        let text_lower = str_lower rt text;
            scores = map (\<lambda>(lang, words).
                            (lang, sum_list (map (\<lambda>word. str_count word text_lower) words)))
                         patterns
        in case scores of
             [] \<Rightarrow> script_detection text
           | kv # rest \<Rightarrow>
               (case max_from kv rest of
                  (detected_lang, score) \<Rightarrow>
                    if 0 < score then detected_lang else script_detection text))"

text \<open>\<open>language_mapping.get(detected_lang, detected_lang)\<close>.\<close>

definition language_mapping :: "ustr \<Rightarrow> ustr" where
  "language_mapping detected_lang =
     (if detected_lang = ascii ''zh-cn'' \<or> detected_lang = ascii ''zh-tw'' then ascii ''zh''
      else detected_lang)"

text \<open>
  \<open>detect_language\<close>. The \<open>try\<close> block first runs
  \<open>from langdetect import detect, LangDetectException\<close>, which binds two local names.
  When an exception leaves the block, Python looks for a handler by evaluating the
  expressions of the \<open>except\<close> clauses in order, and the first clause is
  \<open>except LangDetectException\<close>. If the import itself failed, that local name was never
  bound: evaluating it raises \<open>UnboundLocalError\<close>, which leaves the whole \<open>try\<close>
  statement (the later \<open>except ImportError\<close> and \<open>except Exception\<close> clauses are not
  reached). If the import succeeded, every exception of \<open>detect\<close> is caught by one of
  the three clauses, and each of them returns the fallback's result.
\<close>

definition detect_language :: "runtime \<Rightarrow> ustr \<Rightarrow> error + ustr" where
  "detect_language rt text =
     (if text = [] \<or> strip text = [] then Inr (ascii ''en'')
      else
        let clean_text = take 1000 (strip text)
        in case langdetect rt of
             None \<Rightarrow> Inl UnboundLocalError
           | Some detect \<Rightarrow>
               (case detect clean_text of
                  Inr detected_lang \<Rightarrow> Inr (language_mapping detected_lang)
                | Inl e \<Rightarrow> Inr (fallback_language_detection rt clean_text)))"

text \<open>
  A runtime with neither \<open>langdetect\<close> nor \<open>onnxruntime\<close> installed and no files; its
  case mappings cover ASCII letters.
\<close>

definition ascii_lower :: "ustr \<Rightarrow> ustr" where
  "ascii_lower s = map (\<lambda>c. if 65 \<le> c \<and> c \<le> 90 then c + 32 else c) s"

definition ascii_upper :: "ustr \<Rightarrow> ustr" where
  "ascii_upper s = map (\<lambda>c. if 97 \<le> c \<and> c \<le> 122 then c - 32 else c) s"

definition bare_runtime :: runtime where
  "bare_runtime =
     \<lparr>str_lower = ascii_lower, str_upper = ascii_upper, langdetect = None, onnxruntime = None,
      path_exists = (\<lambda>p. False), open_read = (\<lambda>p enc. Inl FileNotFoundError),
      apply_emotion = (\<lambda>t. Inr t)\<rparr>"

section \<open>chapter_translate.py: the backend and the chapter pipeline\<close>

text \<open>\<open>os.path.join\<close> of a directory name and a file name (POSIX separator).\<close>

definition path_join :: "ustr \<Rightarrow> ustr \<Rightarrow> ustr" where
  "path_join dir name = dir @ ascii ''/'' @ name"

text \<open>
  \<open>load_translation_model\<close>: \<open>None\<close> when \<open>onnxruntime\<close> cannot be imported, when the
  model file does not exist, or when creating the session raises.
\<close>

definition load_translation_model :: "runtime \<Rightarrow> ustr \<Rightarrow> ustr \<Rightarrow> session option" where
  "load_translation_model rt source_lang target_lang =
     (case onnxruntime rt of
        None \<Rightarrow> None
      | Some inference_session \<Rightarrow>
          let models_dir = ascii ''models'';
              model_path =
                (if source_lang = ascii ''en''
                 then path_join models_dir (ascii ''translation_en2mul_quantized.onnx'')
                 else path_join models_dir (ascii ''translation_mul2en_quantized.onnx''))
          in if \<not> path_exists rt model_path then None
             else case inference_session model_path of
                    Inl e \<Rightarrow> None
                  | Inr session \<Rightarrow> Some session)"

text \<open>The placeholder \<open>f"[{target_lang.upper()}] {text_chunk}"\<close>.\<close>

definition placeholder :: "runtime \<Rightarrow> ustr \<Rightarrow> ustr \<Rightarrow> ustr" where
  "placeholder rt target_lang text_chunk =
     ascii ''['' @ str_upper rt target_lang @ ascii ''] '' @ text_chunk"

text \<open>
  \<open>translate_text_chunk\<close>. The result is a sum so that "does not raise" can be stated:
  the \<open>try\<close> block's only raising call is \<open>model_session.run\<close>, and
  \<open>except Exception\<close> turns its exception into the placeholder.
  \<open>outputs[0][0] if outputs and len(outputs[0]) > 0 else text_chunk\<close> is the case
  distinction on the output lists.
\<close>

definition translate_text_chunk ::
  "runtime \<Rightarrow> ustr \<Rightarrow> session option \<Rightarrow> ustr \<Rightarrow> ustr \<Rightarrow> error + ustr" where
  "translate_text_chunk rt text_chunk model_session source_lang target_lang =
     (case model_session of
        None \<Rightarrow> Inr (placeholder rt target_lang text_chunk)
      | Some run \<Rightarrow>
          (case run \<lparr>feed_input_text = [text_chunk], feed_source_lang = [source_lang],
                     feed_target_lang = [target_lang]\<rparr> of
             Inr outputs \<Rightarrow>
               Inr (case outputs of
                      [] \<Rightarrow> text_chunk
                    | first # _ \<Rightarrow> (case first of [] \<Rightarrow> text_chunk | translated_text # _ \<Rightarrow> translated_text))
           | Inl e \<Rightarrow> Inr (placeholder rt target_lang text_chunk)))"

text \<open>
  \<open>read_text\<close> of utils.py: the loop over the encodings. \<open>last_enc\<close> is
  \<open>encodings[-1]\<close>. The loop cannot run out of encodings: the last one returns or raises.
\<close>

fun try_encodings :: "runtime \<Rightarrow> ustr \<Rightarrow> ustr \<Rightarrow> ustr list \<Rightarrow> error + ustr" where
  "try_encodings rt file_path last_enc [] = Inl PyException"
| "try_encodings rt file_path last_enc (enc # rest) =
     (case open_read rt file_path enc of
        Inr content \<Rightarrow> Inr content
      | Inl UnicodeDecodeError \<Rightarrow>
          if enc = last_enc then Inl PyException
          else try_encodings rt file_path last_enc rest
      | Inl e \<Rightarrow> Inl PyException)"

definition read_text :: "runtime \<Rightarrow> ustr \<Rightarrow> ustr \<Rightarrow> error + ustr" where
  "read_text rt file_path encoding =
     (if \<not> path_exists rt file_path then Inl FileNotFoundError
      else try_encodings rt file_path (ascii ''iso-8859-1'')
             [encoding, ascii ''utf-8'', ascii ''latin-1'', ascii ''cp1252'', ascii ''iso-8859-1''])"

text \<open>\<open>sep.join(parts)\<close>.\<close>

fun join :: "ustr \<Rightarrow> ustr list \<Rightarrow> ustr" where
  "join sep [] = []"
| "join sep [x] = x"
| "join sep (x # y # rest) = x @ sep @ join sep (y # rest)"

text \<open>
  The body of the chunk loop of \<open>translate_chapter\<close> for one chunk, and the loop. The
  module-level \<open>chapter_glossary\<close> is the glossary passed in and returned.
  \<open>if glossary_translation:\<close> holds for a found, non-empty translation.
\<close>

definition translate_one ::
  "runtime \<Rightarrow> session option \<Rightarrow> ustr \<Rightarrow> ustr \<Rightarrow> ustr \<Rightarrow> glossary \<Rightarrow> (error + ustr) \<times> glossary" where
  "translate_one rt model_session source_lang target_lang chunk g =
     (let looked_up =
            (case get_translation g chunk of
               None \<Rightarrow> None
             | Some glossary_translation \<Rightarrow>
                 if glossary_translation \<noteq> [] then Some glossary_translation else None);
          translated =
            (case looked_up of
               Some glossary_translation \<Rightarrow> (Inr glossary_translation, g)
             | None \<Rightarrow>
                 (case translate_text_chunk rt chunk model_session source_lang target_lang of
                    Inl e \<Rightarrow> (Inl e, g)
                  | Inr translated_chunk \<Rightarrow>
                      (Inr translated_chunk, add_term g chunk translated_chunk None)))
      in case translated of
           (Inl e, g') \<Rightarrow> (Inl e, g')
         | (Inr translated_chunk, g') \<Rightarrow>
             (case apply_emotion rt translated_chunk of
                Inr enhanced \<Rightarrow> (Inr enhanced, g')
              | Inl e \<Rightarrow> (Inr translated_chunk, g')))"

fun translate_chunks ::
  "runtime \<Rightarrow> session option \<Rightarrow> ustr \<Rightarrow> ustr \<Rightarrow> ustr list \<Rightarrow> ustr list \<Rightarrow> glossary
     \<Rightarrow> (error + ustr list) \<times> glossary" where
  "translate_chunks rt model_session source_lang target_lang [] translated_chunks g =
     (Inr translated_chunks, g)"
| "translate_chunks rt model_session source_lang target_lang (chunk # rest) translated_chunks g =
     (case translate_one rt model_session source_lang target_lang chunk g of
        (Inl e, g') \<Rightarrow> (Inl e, g')
      | (Inr translated_chunk, g') \<Rightarrow>
          translate_chunks rt model_session source_lang target_lang rest
            (translated_chunks @ [translated_chunk]) g')"

text \<open>
  \<open>translate_chapter(file_path, target_lang)\<close>: the result (an exception or the
  translated text) and the chapter glossary afterwards.
\<close>

definition translate_chapter ::
  "runtime \<Rightarrow> glossary \<Rightarrow> ustr \<Rightarrow> ustr \<Rightarrow> (error + ustr) \<times> glossary" where
  "translate_chapter rt g file_path target_lang =
     (case read_text rt file_path (ascii ''utf-8'') of
        Inl e \<Rightarrow> (Inl e, g)
      | Inr original_text \<Rightarrow>
          if strip original_text = [] then (Inr [], g)
          else
            case detect_language rt original_text of
              Inl e \<Rightarrow> (Inl e, g)
            | Inr source_lang \<Rightarrow>
                if source_lang = target_lang then (Inr original_text, g)
                else
                  let model_session = load_translation_model rt source_lang target_lang;
                      chunks = split_text_into_chunks original_text 512
                  in case translate_chunks rt model_session source_lang target_lang
                            chunks [] g of
                       (Inl e, g') \<Rightarrow> (Inl e, g')
                     | (Inr translated_chunks, g') \<Rightarrow>
                         (Inr (join (ascii '' '') translated_chunks), g'))"

text \<open>
  A runtime in which \<open>langdetect\<close> is installed and answers \<open>'en'\<close>, and the file
  \<open>01.txt\<close> holds \<open>"Hello. World."\<close>.
\<close>

definition demo_runtime :: runtime where
  "demo_runtime =
     bare_runtime\<lparr>langdetect := Some (\<lambda>t. Inr (ascii ''en'')),
                  path_exists := (\<lambda>p. p = ascii ''01.txt''),
                  open_read := (\<lambda>p enc. if p = ascii ''01.txt'' then Inr (ascii ''Hello. World.'')
                                         else Inl FileNotFoundError)\<rparr>"

section \<open>glossary.py: the snapshot file\<close>

text \<open>
  \<open>save_to_file\<close> and \<open>load_from_file\<close> go through the standard library's \<open>json.dump\<close>
  and \<open>json.load\<close>. The model works on what these exchange: a JSON value. A file holds
  the value \<open>json.load\<close> would return for it, or is not a JSON document at all
  (\<open>json.load\<close> raises); that \<open>json.load\<close> returns the value \<open>json.dump\<close> wrote is the
  library's contract and is not examined here. An object is the Python \<open>dict\<close> it is
  loaded as: its keys in order, none twice. Numbers are the integers.
\<close>

datatype json =
  JNull | JBool bool | JInt int | JString ustr | JArray "json list" | JObject "(ustr \<times> json) list"

datatype json_file = JsonDocument json | NotJson

text \<open>
  Writing can fail: \<open>open(file_path, 'w')\<close> may raise (nothing is written), or the dump
  may raise after the file was opened and truncated (what is left is no JSON document).
  Which of these happens for a path and a document is a parameter of the store.
\<close>

datatype write_outcome = Written | OpenFails | DumpFails

record json_store =
  files :: "ustr \<Rightarrow> json_file option"
  on_write :: "ustr \<Rightarrow> json \<Rightarrow> write_outcome"

text \<open>The dictionary \<open>glossary_data\<close> built by \<open>save_to_file\<close>, as a JSON value.\<close>

definition glossary_data :: "glossary \<Rightarrow> json" where
  "glossary_data g =
     JObject
       [(ascii ''terms'', JObject (map (\<lambda>(k, v). (k, JString v)) (terms g))),
        (ascii ''usage_count'', JObject (map (\<lambda>(k, n). (k, JInt n)) (usage_count g))),
        (ascii ''context'', JObject (map (\<lambda>(k, cs). (k, JArray (map JString cs))) (contexts g)))]"

text \<open>
  \<open>save_to_file(file_path)\<close>: the returned flag and the store afterwards. Any exception
  is caught and gives \<open>False\<close>.
\<close>

definition save_to_file :: "glossary \<Rightarrow> json_store \<Rightarrow> ustr \<Rightarrow> bool \<times> json_store" where
  "save_to_file g st file_path =
     (case on_write st file_path (glossary_data g) of
        Written \<Rightarrow> (True, st\<lparr>files := (files st)(file_path \<mapsto> JsonDocument (glossary_data g))\<rparr>)
      | OpenFails \<Rightarrow> (False, st)
      | DumpFails \<Rightarrow> (False, st\<lparr>files := (files st)(file_path \<mapsto> NotJson)\<rparr>))"

text \<open>
  Reading a JSON value at the types the glossary declares for its three dictionaries
  (\<open>Dict[str, str]\<close>, \<open>Dict[str, int]\<close>, \<open>Dict[str, List[str]]\<close>).
\<close>

definition as_string :: "json \<Rightarrow> ustr option" where
  "as_string j = (case j of JString s \<Rightarrow> Some s | _ \<Rightarrow> None)"

definition as_int :: "json \<Rightarrow> int option" where
  "as_int j = (case j of JInt n \<Rightarrow> Some n | _ \<Rightarrow> None)"

definition as_string_list :: "json \<Rightarrow> ustr list option" where
  "as_string_list j = (case j of JArray xs \<Rightarrow> those (map as_string xs) | _ \<Rightarrow> None)"

definition as_dict :: "(json \<Rightarrow> 'a option) \<Rightarrow> json \<Rightarrow> (ustr \<times> 'a) list option" where
  "as_dict f j =
     (case j of
        JObject kvs \<Rightarrow> those (map (\<lambda>(k, v). map_option (Pair k) (f v)) kvs)
      | _ \<Rightarrow> None)"

text \<open>
  \<open>load_from_file(file_path)\<close> returns a flag and leaves a state: \<open>Returned flag g\<close>.
  A missing file, a file that is no JSON document and a document that is not an object
  (\<open>.get\<close> raises) give \<open>False\<close> and the state as it was. For an object the three
  fields are taken with \<open>.get(name, {})\<close> and stored without any check; where a field is
  not of the declared type the Python state is outside the glossary's types, which the
  model records as \<open>Untyped\<close>.
\<close>

datatype load_result = Returned bool glossary | Untyped

definition load_from_file :: "glossary \<Rightarrow> json_store \<Rightarrow> ustr \<Rightarrow> load_result" where
  "load_from_file g st file_path =
     (case files st file_path of
        None \<Rightarrow> Returned False g
      | Some NotJson \<Rightarrow> Returned False g
      | Some (JsonDocument doc) \<Rightarrow>
          (case doc of
             JObject entries \<Rightarrow>
               (case (as_dict as_string (dict_get entries (ascii ''terms'') (JObject [])),
                      as_dict as_int (dict_get entries (ascii ''usage_count'') (JObject [])),
                      as_dict as_string_list (dict_get entries (ascii ''context'') (JObject []))) of
                  (Some t, Some u, Some c) \<Rightarrow>
                    Returned True \<lparr>terms = t, usage_count = u, contexts = c\<rparr>
                | _ \<Rightarrow> Untyped)
           | _ \<Rightarrow> Returned False g))"

text \<open>A store with no files in which every write succeeds.\<close>

definition empty_store :: json_store where
  "empty_store = \<lparr>files = (\<lambda>p. None), on_write = (\<lambda>p doc. Written)\<rparr>"



section \<open>Properties of the chunker\<close>


lemma strip_length: "length (strip s) \<le> length s"
  unfolding strip_def
  by (metis length_dropWhile_le length_rev order_trans)

lemma isspace_32: "isspace 32" by (simp add: isspace_def)
lemma not_isspace_46: "\<not> isspace 46" by (simp add: isspace_def)

lemma dropWhile_keeps_suffix:
  "\<not> P a \<Longrightarrow> \<exists>q. dropWhile P (p @ a # r) = q @ a # r \<and> length q \<le> length p"
  by (induction p) auto

lemma strip_dot_space:
  "\<exists>q. strip (p @ dot_space) = q @ [46] \<and> length q \<le> length p"
proof -
  obtain q where q: "dropWhile isspace (p @ 46 # [32]) = q @ 46 # [32]" "length q \<le> length p"
    using dropWhile_keeps_suffix [of isspace 46 p "[32]"] not_isspace_46 by blast
  have "strip (p @ dot_space) = q @ [46]"
    using q(1) by (simp add: strip_def dot_space_def isspace_32 not_isspace_46)
  with q(2) show ?thesis by blast
qed

lemma split_from_nonempty: "split_from sep cur s \<noteq> []"
  by (induction sep cur s rule: split_from.induct) auto


lemma ends_dot_strip: "ends_dot (strip (p @ dot_space))"
  using strip_dot_space [of p] by (auto simp: ends_dot_def)


lemma dotted_append: "dotted (cur @ s @ dot_space)" "dotted (s @ dot_space)"
  unfolding dotted_def by (metis append.assoc)+

lemma dotted_nonempty: "dotted cur \<Longrightarrow> cur \<noteq> []"
  by (auto simp: dotted_def dot_space_def)

lemma ends_dot_strip_dotted: "dotted cur \<Longrightarrow> ends_dot (strip cur)"
  by (auto simp: dotted_def ends_dot_strip)

lemma chunk_loop_dotted:
  "chunk_loop m ss chunks cur = (chunks', cur') \<Longrightarrow>
   \<forall>u \<in> set chunks. ends_dot u \<Longrightarrow> cur = [] \<or> dotted cur \<Longrightarrow>
   (\<forall>u \<in> set chunks'. ends_dot u) \<and> (cur' = [] \<or> dotted cur') \<and> (ss \<noteq> [] \<longrightarrow> dotted cur')"
proof (induction ss arbitrary: chunks cur)
  case Nil
  then show ?case by simp
next
  case (Cons s rest)
  show ?case
  proof (cases "int (length cur) + int (length s) + 2 \<le> m")
    case True
    with Cons.prems have run: "chunk_loop m rest chunks (cur @ s @ dot_space) = (chunks', cur')"
      by simp
    from Cons.IH [OF run Cons.prems(2)] dotted_append(1)
    have ih: "(\<forall>u \<in> set chunks'. ends_dot u) \<and> (cur' = [] \<or> dotted cur') \<and> (rest \<noteq> [] \<longrightarrow> dotted cur')"
      by blast
    have "dotted cur'"
    proof (cases rest)
      case Nil
      with run show ?thesis using dotted_append by auto
    next
      case (Cons a list)
      with ih show ?thesis by simp
    qed
    with ih show ?thesis by simp
  next
    case False
    let ?chunks = "if cur \<noteq> [] then chunks @ [strip cur] else chunks"
    from False Cons.prems have run: "chunk_loop m rest ?chunks (s @ dot_space) = (chunks', cur')"
      by simp
    have all: "\<forall>u \<in> set ?chunks. ends_dot u"
      using Cons.prems(2,3) by (auto simp: ends_dot_strip_dotted)
    from Cons.IH [OF run all] dotted_append(2)
    have ih: "(\<forall>u \<in> set chunks'. ends_dot u) \<and> (cur' = [] \<or> dotted cur') \<and> (rest \<noteq> [] \<longrightarrow> dotted cur')"
      by blast
    have "dotted cur'"
    proof (cases rest)
      case Nil
      with run show ?thesis using dotted_append by auto
    next
      case (Cons a list)
      with ih show ?thesis by simp
    qed
    with ih show ?thesis by simp
  qed
qed

lemma sentences_of_nonempty: "sentences_of text \<noteq> []"
  by (simp add: sentences_of_def split_def split_from_nonempty)

lemma chunks_nonempty_dotted:
  "split_text_into_chunks text m \<noteq> [] \<and>
   (\<forall>u \<in> set (split_text_into_chunks text m). ends_dot u)"
proof -
  obtain chunks cur where run: "chunk_loop m (sentences_of text) [] [] = (chunks, cur)"
    by (cases "chunk_loop m (sentences_of text) [] []") auto
  from chunk_loop_dotted [OF run] sentences_of_nonempty
  have inv: "\<forall>u \<in> set chunks. ends_dot u" "dotted cur" by auto
  have res: "split_text_into_chunks text m = chunks @ [strip cur]"
    using run dotted_nonempty [OF inv(2)] by (simp add: split_text_into_chunks_def)
  show ?thesis using inv by (auto simp: res ends_dot_strip_dotted)
qed

text \<open>
  C10. For every input text (the empty string included) and every maximum chunk size,
  \<open>split_text_into_chunks\<close> returns a non-empty list, every unit of which is a non-empty
  string whose last character is the full stop (code point 46); the empty string gives the
  single unit \<open>"."\<close>. Since every unit ends with the re-added full stop, one is
  introduced also when the input did not end with one.
\<close>

theorem chunks_end_with_period:
  "split_text_into_chunks T max_chunk_size \<noteq> [] \<and>
   (\<forall>u \<in> set (split_text_into_chunks T max_chunk_size). u \<noteq> [] \<and> last u = 46) \<and>
   split_text_into_chunks [] max_chunk_size = [[46]]"
proof -
  have "split_text_into_chunks [] max_chunk_size = [[46]]"
    by (simp add: split_text_into_chunks_def sentences_of_def split_def replace_newlines_def
        dot_space_def strip_def isspace_def)
  with chunks_nonempty_dotted [of T max_chunk_size] show ?thesis
    by (simp add: ends_dot_def)
qed

theorem chunks_end_with_period_witness:
  "split_text_into_chunks (ascii ''Hi. Yo'') 5 = [ascii ''Hi.'', ascii ''Yo.''] \<and>
   last (ascii ''Hi.'') = 46 \<and> last (ascii ''Yo.'') = 46 \<and>
   split_text_into_chunks [] 5 = [ascii ''.'']"
proof -
  have ev: "split_text_into_chunks (ascii ''Hi. Yo'') 5 = [ascii ''Hi.'', ascii ''Yo.'']"
    by (simp add: split_text_into_chunks_def sentences_of_def split_def replace_newlines_def
        dot_space_def strip_def isspace_def ascii_def)
  show ?thesis
    using ev chunks_end_with_period [where T = "ascii ''Hi. Yo''" and max_chunk_size = 5]
    by (simp add: ascii_def)
qed

lemma sized_strip: "buffer_ok m frs cur \<Longrightarrow> sized m frs (strip cur)"
  unfolding buffer_ok_def sized_def
  using strip_length [of cur] by auto

lemma chunk_loop_sized:
  "chunk_loop m ss chunks cur = (chunks', cur') \<Longrightarrow>
   \<forall>u \<in> set chunks. sized m frs u \<Longrightarrow> cur = [] \<or> buffer_ok m frs cur \<Longrightarrow> set ss \<subseteq> set frs \<Longrightarrow>
   (\<forall>u \<in> set chunks'. sized m frs u) \<and> (cur' = [] \<or> buffer_ok m frs cur')"
proof (induction ss arbitrary: chunks cur)
  case Nil
  then show ?case by simp
next
  case (Cons s rest)
  from Cons.prems(4) have sub: "set rest \<subseteq> set frs" and mem: "s \<in> set frs" by auto
  show ?case
  proof (cases "int (length cur) + int (length s) + 2 \<le> m")
    case True
    with Cons.prems have run: "chunk_loop m rest chunks (cur @ s @ dot_space) = (chunks', cur')"
      by simp
    have "buffer_ok m frs (cur @ s @ dot_space)"
      using True by (simp add: buffer_ok_def dot_space_def)
    with Cons.IH [OF run Cons.prems(2) _ sub] show ?thesis by blast
  next
    case False
    let ?chunks = "if cur \<noteq> [] then chunks @ [strip cur] else chunks"
    from False Cons.prems have run: "chunk_loop m rest ?chunks (s @ dot_space) = (chunks', cur')"
      by simp
    have all: "\<forall>u \<in> set ?chunks. sized m frs u"
      using Cons.prems(2,3) by (auto simp: sized_strip)
    have "buffer_ok m frs (s @ dot_space)"
      using mem by (auto simp: buffer_ok_def)
    with Cons.IH [OF run all _ sub] show ?thesis by blast
  qed
qed

lemma chunks_sized:
  "u \<in> set (split_text_into_chunks T m) \<Longrightarrow> sized m (sentences_of T) u"
proof -
  assume u: "u \<in> set (split_text_into_chunks T m)"
  obtain chunks cur where run: "chunk_loop m (sentences_of T) [] [] = (chunks, cur)"
    by (cases "chunk_loop m (sentences_of T) [] []") auto
  from chunk_loop_sized [OF run, of "sentences_of T"]
  have inv: "\<forall>u \<in> set chunks. sized m (sentences_of T) u" "cur = [] \<or> buffer_ok m (sentences_of T) cur"
    by auto
  from u run have "u \<in> set chunks \<or> (cur \<noteq> [] \<and> u = strip cur)"
    by (auto simp: split_text_into_chunks_def split: if_splits)
  with inv show ?thesis by (auto simp: sized_strip)
qed

text \<open>
  C1 (as amended). Every unit produced by \<open>split_text_into_chunks\<close> has length at most
  the maximum chunk size, except that a unit may exceed it when it consists of a single
  sentence fragment (re-suffixed with \<open>". "\<close> and trimmed) whose own length is at least the
  maximum chunk size; no other unit exceeds it.
\<close>

theorem oversized_chunk_is_single_fragment:
  "u \<in> set (split_text_into_chunks T max_chunk_size) \<Longrightarrow>
   int (length u) \<le> max_chunk_size \<or>
   (\<exists>s \<in> set (sentences_of T). u = strip (s @ dot_space) \<and> max_chunk_size \<le> int (length s))"
proof -
  assume u: "u \<in> set (split_text_into_chunks T max_chunk_size)"
  show ?thesis
  proof (cases "int (length u) \<le> max_chunk_size")
    case True
    then show ?thesis by simp
  next
    case False
    with chunks_sized [OF u] obtain s where
      s: "s \<in> set (sentences_of T)" "u = strip (s @ dot_space)"
      by (auto simp: sized_def)
    from strip_dot_space [of s] s(2) have "length u \<le> length s + 1" by auto
    with False have "max_chunk_size \<le> int (length s)" by simp
    with s show ?thesis by blast
  qed
qed

theorem oversized_chunk_is_single_fragment_witness:
  "split_text_into_chunks (ascii ''ab'') 2 = [ascii ''ab.''] \<and>
   sentences_of (ascii ''ab'') = [ascii ''ab''] \<and>
   (int (length (ascii ''ab.'')) \<le> 2 \<or>
    (ascii ''ab.'' = strip (ascii ''ab'' @ dot_space) \<and> 2 \<le> int (length (ascii ''ab''))))"
proof -
  have ev: "split_text_into_chunks (ascii ''ab'') 2 = [ascii ''ab.'']"
    "sentences_of (ascii ''ab'') = [ascii ''ab'']"
    by (simp_all add: split_text_into_chunks_def sentences_of_def split_def replace_newlines_def
        dot_space_def strip_def isspace_def ascii_def)
  have "ascii ''ab.'' \<in> set (split_text_into_chunks (ascii ''ab'') 2)"
    using ev by simp
  from oversized_chunk_is_single_fragment [OF this] ev show ?thesis by simp
qed

text \<open>
  The bound fails where the claim puts it: with maximum chunk size 2 the text \<open>"ab"\<close> is
  one fragment of length 2, which does not exceed 2, and the only unit is \<open>"ab."\<close> of
  length 3.
\<close>

theorem chunk_bound_counterexample:
  "split_text_into_chunks (ascii ''ab'') 2 = [ascii ''ab.''] \<and>
   sentences_of (ascii ''ab'') = [ascii ''ab''] \<and>
   \<not> int (length (ascii ''ab.'')) \<le> 2 \<and>
   \<not> 2 < int (length (ascii ''ab''))"
  by (simp add: split_text_into_chunks_def sentences_of_def split_def replace_newlines_def
        dot_space_def strip_def isspace_def ascii_def)

section \<open>Properties of the glossary\<close>

lemma strip_nil: "strip [] = []" by (simp add: strip_def)

lemma not_blank_iff: "\<not> blank s \<longleftrightarrow> strip s \<noteq> []"
  by (auto simp: blank_def strip_nil)

lemma map_of_update_same: "map_of (AList.update k v al) k = Some v"
  by (simp add: update_conv')


lemma add_term_terms:
  "\<not> blank original \<Longrightarrow>
   terms (add_term g original translated c) =
     AList.update (strip original) (if translated \<noteq> [] then strip translated else []) (terms g)"
  by (auto simp: add_term_def blank_def Let_def split: option.splits)


lemma add_term_contexts:
  "\<not> blank original \<Longrightarrow> c \<noteq> [] \<Longrightarrow>
   contexts (add_term g original translated (Some c)) = add_context (contexts g) (strip original) c"
  by (auto simp: add_term_def blank_def Let_def)

text \<open>
  C7. A term added with an empty or whitespace-only translation is known but untranslated:
  \<open>get_translation\<close> returns not-found (\<open>None\<close>) for it while \<open>has_term\<close> is true.
  (A term is added only when \<open>original\<close> is not blank.)
\<close>

theorem empty_translation_known_but_not_found:
  "\<not> blank original \<Longrightarrow> blank translated \<Longrightarrow>
   get_translation (add_term g original translated c) original = None \<and>
   has_term (add_term g original translated c) original"
proof -
  assume o: "\<not> blank original" and t: "blank translated"
  from t have stored: "(if translated \<noteq> [] then strip translated else []) = []"
    by (auto simp: blank_def)
  have "map_of (terms (add_term g original translated c)) (strip original) = Some []"
    using stored by (simp add: add_term_terms [OF o] map_of_update_same)
  with o show ?thesis
    by (auto simp: get_translation_def has_term_def dict_has_def blank_def)
qed

theorem empty_translation_known_but_not_found_witness:
  "\<not> blank (ascii ''Kael'') \<and> blank (ascii ''  '') \<and>
   get_translation (add_term new_glossary (ascii ''Kael'') (ascii ''  '') None) (ascii ''Kael'') = None \<and>
   has_term (add_term new_glossary (ascii ''Kael'') (ascii ''  '') None) (ascii ''Kael'')"
proof -
  have h: "\<not> blank (ascii ''Kael'')" "blank (ascii ''  '')"
    by (simp_all add: blank_def strip_def isspace_def ascii_def)
  from empty_translation_known_but_not_found [OF h] h show ?thesis by simp
qed

lemma dict_get_update_same: "dict_get (AList.update k v al) k d = v"
  by (simp add: dict_get_def update_conv')

lemma dict_get_update_other: "k' \<noteq> k \<Longrightarrow> dict_get (AList.update k' v al) k d = dict_get al k d"
  by (simp add: dict_get_def update_conv')

lemma dict_get_absent: "\<not> dict_has al k \<Longrightarrow> dict_get al k d = d"
  by (simp add: dict_get_def dict_has_def)

lemma add_context_history:
  "dict_get (add_context ctx k c) k [] =
     (let h = dict_get ctx k [] in
      if c \<in> set h then h else drop (length (h @ [c]) - 5) (h @ [c]))"
proof (cases "dict_has ctx k")
  case True
  then show ?thesis
    by (auto simp: add_context_def Let_def dict_get_update_same)
next
  case False
  then show ?thesis
    by (auto simp: add_context_def Let_def dict_get_update_same dict_get_absent)
qed

text \<open>
  C6 (as amended). For every \<open>add_term\<close> call with a non-empty context string \<open>c\<close> on a
  (non-blank) term, \<open>c\<close> is appended to the term's context history unless it is equal to
  any entry already in that history, the last one or an earlier one; when it is appended,
  the history is cut to its most recent 5 entries.
\<close>

theorem add_term_context_history:
  "\<not> blank original \<Longrightarrow> c \<noteq> [] \<Longrightarrow>
   get_context (add_term g original translated (Some c)) original =
     (if c \<in> set (get_context g original) then get_context g original
      else drop (length (get_context g original @ [c]) - 5) (get_context g original @ [c]))"
proof -
  assume o: "\<not> blank original" and c: "c \<noteq> []"
  from o have ne: "original \<noteq> []" by (simp add: blank_def)
  show ?thesis
    using ne by (simp add: get_context_def add_term_contexts [OF o c] add_context_history Let_def)
qed

theorem add_term_context_history_witness:
  "\<not> blank (ascii ''t'') \<and> ascii ''b'' \<noteq> [] \<and>
   get_context (add_term new_glossary (ascii ''t'') (ascii ''x'') (Some (ascii ''a''))) (ascii ''t'')
     = [ascii ''a''] \<and>
   get_context
     (add_term (add_term new_glossary (ascii ''t'') (ascii ''x'') (Some (ascii ''a'')))
        (ascii ''t'') (ascii ''x'') (Some (ascii ''b''))) (ascii ''t'')
     = [ascii ''a'', ascii ''b'']"
proof -
  have h: "\<not> blank (ascii ''t'')" "ascii ''b'' \<noteq> []" "ascii ''a'' \<noteq> []"
    by (simp_all add: blank_def strip_def isspace_def ascii_def)
  have e: "get_context new_glossary (ascii ''t'') = []"
    by (simp add: get_context_def new_glossary_def dict_get_def)
  have a: "get_context (add_term new_glossary (ascii ''t'') (ascii ''x'') (Some (ascii ''a''))) (ascii ''t'')
     = [ascii ''a'']"
    using add_term_context_history [OF h(1) h(3), of new_glossary "ascii ''x''"] e by simp
  have ab: "ascii ''b'' \<notin> set [ascii ''a'']" by (simp add: ascii_def)
  show ?thesis
    using add_term_context_history [OF h(1) h(2),
        of "add_term new_glossary (ascii ''t'') (ascii ''x'') (Some (ascii ''a''))" "ascii ''x''"]
      a ab h by simp
qed

text \<open>
  The history \<open>["a", "b"]\<close> ends with \<open>"b"\<close>; adding the context \<open>"a"\<close>, which
  duplicates only the earlier entry, leaves the history as it is.
\<close>

theorem context_earlier_duplicate_counterexample:
  "get_context
     (add_term (add_term new_glossary (ascii ''t'') (ascii ''x'') (Some (ascii ''a'')))
        (ascii ''t'') (ascii ''x'') (Some (ascii ''b''))) (ascii ''t'')
     = [ascii ''a'', ascii ''b''] \<and>
   last [ascii ''a'', ascii ''b''] \<noteq> ascii ''a'' \<and>
   get_context
     (add_term
        (add_term (add_term new_glossary (ascii ''t'') (ascii ''x'') (Some (ascii ''a'')))
           (ascii ''t'') (ascii ''x'') (Some (ascii ''b'')))
        (ascii ''t'') (ascii ''x'') (Some (ascii ''a''))) (ascii ''t'')
     = [ascii ''a'', ascii ''b''] \<and>
   [ascii ''a'', ascii ''b''] \<noteq> [ascii ''a'', ascii ''b'', ascii ''a'']"
  by (simp add: get_context_def add_term_def add_context_def new_glossary_def dict_get_def
      dict_has_def strip_def isspace_def ascii_def Let_def)

text \<open>
  C5, evaluated where it fails. Both glossaries hold the term \<open>"k"\<close> with usage count 1;
  after \<open>merge_glossary\<close> with \<open>prefer_existing = False\<close> the count is 3, not 1 + 1:
  the \<open>add_term\<close> call that overwrites the translation has counted one more use.
\<close>

theorem merge_overwrite_counts_one_more:
  "get_usage_count (add_term new_glossary (ascii ''k'') (ascii ''v1'') None) (ascii ''k'') = 1 \<and>
   get_usage_count (add_term new_glossary (ascii ''k'') (ascii ''v2'') None) (ascii ''k'') = 1 \<and>
   get_usage_count
     (merge_glossary (add_term new_glossary (ascii ''k'') (ascii ''v1'') None)
        (add_term new_glossary (ascii ''k'') (ascii ''v2'') None) False) (ascii ''k'') = 3 \<and>
   get_usage_count
     (merge_glossary (add_term new_glossary (ascii ''k'') (ascii ''v1'') None)
        (add_term new_glossary (ascii ''k'') (ascii ''v2'') None) True) (ascii ''k'') = 2"
  by (simp add: merge_glossary_def merge_item_def get_all_terms_def get_usage_count_def
      add_term_def new_glossary_def dict_get_def dict_has_def strip_def isspace_def ascii_def Let_def)










section \<open>Properties of language detection\<close>

text \<open>What holds of the claim: blank input gives \<open>"en"\<close>, and with the library imported
  every outcome of \<open>detect\<close> leads to a language code.\<close>

lemma detect_language_blank:
  "blank T \<Longrightarrow> detect_language rt T = Inr (ascii ''en'')"
  by (auto simp: detect_language_def blank_def)

lemma detect_language_with_library:
  "langdetect rt = Some detect \<Longrightarrow> \<exists>code. detect_language rt T = Inr code"
  by (auto simp: detect_language_def Let_def split: sum.splits)

lemma detect_language_without_library:
  "langdetect rt = None \<Longrightarrow> \<not> blank T \<Longrightarrow> detect_language rt T = Inl UnboundLocalError"
  by (auto simp: detect_language_def blank_def Let_def)

text \<open>
  C4, evaluated where it fails. In a runtime without the \<open>langdetect\<close> library,
  \<open>detect_language\<close> on the text \<open>"Hello world"\<close> does not return a language code: the
  \<open>UnboundLocalError\<close> raised while the handlers are searched reaches the caller.
\<close>

theorem detect_language_library_absent_raises:
  "langdetect bare_runtime = None \<and>
   detect_language bare_runtime (ascii ''Hello world'') = Inl UnboundLocalError"
  by (simp add: detect_language_def bare_runtime_def strip_def isspace_def ascii_def)

section \<open>Properties of the backend adapter and the chapter pipeline\<close>

lemma load_translation_model_unavailable:
  "onnxruntime rt = None \<Longrightarrow> load_translation_model rt source target = None"
  by (simp add: load_translation_model_def)

text \<open>
  C3. \<open>translate_text_chunk\<close> does not raise: for every unit, session and pair of
  languages it returns a text. Whenever no model is available (\<open>model_session\<close> is
  \<open>None\<close>, which is what \<open>load_translation_model\<close> returns when resolution fails) or the
  model invocation raises, the text is exactly the placeholder: \<open>"["\<close>, the target
  language code uppercased, \<open>"] "\<close>, and the original unit.
\<close>

theorem translate_text_chunk_total_with_placeholder:
  "(\<exists>translated. translate_text_chunk rt text_chunk model_session source target = Inr translated) \<and>
   (model_session = None \<or>
    (\<exists>run e. model_session = Some run \<and>
       run \<lparr>feed_input_text = [text_chunk], feed_source_lang = [source],
            feed_target_lang = [target]\<rparr> = Inl e)
    \<longrightarrow> translate_text_chunk rt text_chunk model_session source target
          = Inr (ascii ''['' @ str_upper rt target @ ascii ''] '' @ text_chunk))"
  by (auto simp: translate_text_chunk_def placeholder_def split: option.splits sum.splits)

theorem translate_text_chunk_total_with_placeholder_witness:
  "load_translation_model bare_runtime (ascii ''en'') (ascii ''es'') = None \<and>
   translate_text_chunk bare_runtime (ascii ''Hi.'')
     (load_translation_model bare_runtime (ascii ''en'') (ascii ''es'')) (ascii ''en'') (ascii ''es'')
     = Inr (ascii ''[ES] Hi.'') \<and>
   translate_text_chunk bare_runtime (ascii ''Hi.'') (Some (\<lambda>feed. Inl PyException))
     (ascii ''en'') (ascii ''es'') = Inr (ascii ''[ES] Hi.'')"
proof -
  have none: "load_translation_model bare_runtime (ascii ''en'') (ascii ''es'') = None"
    by (simp add: load_translation_model_def bare_runtime_def)
  have up: "ascii ''['' @ str_upper bare_runtime (ascii ''es'') @ ascii ''] '' @ ascii ''Hi.''
      = ascii ''[ES] Hi.''"
    by (simp add: bare_runtime_def ascii_upper_def ascii_def)
  have a: "translate_text_chunk bare_runtime (ascii ''Hi.'') None (ascii ''en'') (ascii ''es'')
      = Inr (ascii ''[ES] Hi.'')"
    using translate_text_chunk_total_with_placeholder
      [of bare_runtime "ascii ''Hi.''" None "ascii ''en''" "ascii ''es''"] up
    by simp
  have b: "translate_text_chunk bare_runtime (ascii ''Hi.'') (Some (\<lambda>feed. Inl PyException))
      (ascii ''en'') (ascii ''es'') = Inr (ascii ''[ES] Hi.'')"
    using translate_text_chunk_total_with_placeholder
      [of bare_runtime "ascii ''Hi.''" "Some (\<lambda>feed. Inl PyException)" "ascii ''en''" "ascii ''es''"] up
    by simp
  from none a b show ?thesis by simp
qed

text \<open>
  C2. When the source file is read, its text is not blank (so that the language is
  detected at all: a blank text returns the empty string before detection) and the
  detected source language equals the target language, \<open>translate_chapter\<close> returns the
  original text unchanged and the chapter glossary is the one it started with, whatever
  the backend, the tone pass and the glossary are.
\<close>

theorem translate_chapter_same_language:
  "read_text rt file_path (ascii ''utf-8'') = Inr original_text \<Longrightarrow>
   strip original_text \<noteq> [] \<Longrightarrow>
   detect_language rt original_text = Inr target \<Longrightarrow>
   translate_chapter rt g file_path target = (Inr original_text, g)"
  by (simp add: translate_chapter_def)

theorem translate_chapter_same_language_witness:
  "read_text demo_runtime (ascii ''01.txt'') (ascii ''utf-8'') = Inr (ascii ''Hello. World.'') \<and>
   strip (ascii ''Hello. World.'') \<noteq> [] \<and>
   detect_language demo_runtime (ascii ''Hello. World.'') = Inr (ascii ''en'') \<and>
   translate_chapter demo_runtime
     (add_term new_glossary (ascii ''Kael'') (ascii ''Kael'') None) (ascii ''01.txt'') (ascii ''en'')
     = (Inr (ascii ''Hello. World.''), add_term new_glossary (ascii ''Kael'') (ascii ''Kael'') None)"
proof -
  have r: "read_text demo_runtime (ascii ''01.txt'') (ascii ''utf-8'') = Inr (ascii ''Hello. World.'')"
    by (simp add: read_text_def demo_runtime_def bare_runtime_def)
  have s: "strip (ascii ''Hello. World.'') \<noteq> []"
    by (simp add: strip_def isspace_def ascii_def)
  have d: "detect_language demo_runtime (ascii ''Hello. World.'') = Inr (ascii ''en'')"
    using s by (simp add: detect_language_def demo_runtime_def bare_runtime_def language_mapping_def
        Let_def) (simp add: ascii_def)
  from translate_chapter_same_language [OF r s d] r s d show ?thesis by simp
qed

section \<open>Properties of the snapshot file\<close>

lemma those_map_Some: "(\<And>x. h x = Some x) \<Longrightarrow> those (map h xs) = Some xs"
  by (induction xs) simp_all

lemma as_string_list_JArray: "as_string_list (JArray (map JString cs)) = Some cs"
proof -
  have "those (map (\<lambda>c. as_string (JString c)) cs) = Some cs"
    by (rule those_map_Some) (simp add: as_string_def)
  then show ?thesis by (simp add: as_string_list_def o_def)
qed

lemma as_dict_encoded:
  assumes "\<And>v. f (enc v) = Some v"
  shows "as_dict f (JObject (map (\<lambda>(k, v). (k, enc v)) d)) = Some d"
proof -
  have "those (map (\<lambda>(k, v). map_option (Pair k) (f v)) (map (\<lambda>(k, v). (k, enc v)) d)) = Some d"
    by (induction d) (auto simp: assms)
  then show ?thesis by (simp add: as_dict_def)
qed

lemma field_names_differ:
  "ascii ''terms'' \<noteq> ascii ''usage_count''" "ascii ''terms'' \<noteq> ascii ''context''"
  "ascii ''usage_count'' \<noteq> ascii ''context''"
  by (simp_all add: ascii_def)

lemma load_glossary_data:
  "files st file_path = Some (JsonDocument (glossary_data g)) \<Longrightarrow>
   load_from_file fresh st file_path = Returned True g"
proof -
  assume f: "files st file_path = Some (JsonDocument (glossary_data g))"
  have t: "as_dict as_string (JObject (map (\<lambda>(k, v). (k, JString v)) (terms g))) = Some (terms g)"
    by (rule as_dict_encoded) (simp add: as_string_def)
  have u: "as_dict as_int (JObject (map (\<lambda>(k, n). (k, JInt n)) (usage_count g))) = Some (usage_count g)"
    by (rule as_dict_encoded) (simp add: as_int_def)
  have c: "as_dict as_string_list (JObject (map (\<lambda>(k, cs). (k, JArray (map JString cs))) (contexts g)))
      = Some (contexts g)"
    by (rule as_dict_encoded) (simp add: as_string_list_JArray)
  show ?thesis
    using field_names_differ
    by (simp add: load_from_file_def f glossary_data_def dict_get_def t u c)
qed

text \<open>
  C9. When \<open>save_to_file\<close> has written the snapshot (it returned \<open>True\<close>), loading the
  same path into a fresh glossary (into any glossary) returns \<open>True\<close> and leaves exactly
  the saved glossary: the term, usage-count and context dictionaries are identical.
\<close>

theorem save_then_load_round_trip:
  "save_to_file g st file_path = (True, st') \<Longrightarrow>
   load_from_file fresh st' file_path = Returned True g"
proof -
  assume s: "save_to_file g st file_path = (True, st')"
  then have "files st' file_path = Some (JsonDocument (glossary_data g))"
    by (auto simp: save_to_file_def split: write_outcome.splits)
  then show ?thesis by (rule load_glossary_data)
qed

theorem save_then_load_round_trip_witness:
  "fst (save_to_file (add_term new_glossary (ascii ''Kael'') (ascii ''Cael'') (Some (ascii ''a name'')))
          empty_store (ascii ''g.json'')) = True \<and>
   load_from_file new_glossary
     (snd (save_to_file (add_term new_glossary (ascii ''Kael'') (ascii ''Cael'') (Some (ascii ''a name'')))
             empty_store (ascii ''g.json'')))
     (ascii ''g.json'')
   = Returned True (add_term new_glossary (ascii ''Kael'') (ascii ''Cael'') (Some (ascii ''a name'')))"
proof -
  let ?g = "add_term new_glossary (ascii ''Kael'') (ascii ''Cael'') (Some (ascii ''a name''))"
  let ?r = "save_to_file ?g empty_store (ascii ''g.json'')"
  have ok: "fst ?r = True" by (simp add: save_to_file_def empty_store_def)
  then have "?r = (True, snd ?r)" by (metis prod.collapse)
  from save_then_load_round_trip [OF this, of new_glossary] ok show ?thesis by simp
qed

section \<open>The glossary's key invariant\<close>

text \<open>
  A glossary built by \<open>add_term\<close> and \<open>merge_glossary\<close> alone has distinct, trimmed keys,
  and then the conditions of the merge theorem on the keys hold for each of its terms.
  A glossary replaced by \<open>load_from_file\<close> has the keys of the file, whatever they are.
\<close>

lemma last_dropWhile: "dropWhile P xs \<noteq> [] \<Longrightarrow> last (dropWhile P xs) = last xs"
  by (induction xs) (auto split: if_splits)

lemma strip_idem: "strip (strip s) = strip s"
proof -
  let ?t = "dropWhile isspace s"
  let ?u = "dropWhile isspace (rev ?t)"
  have "dropWhile isspace (rev ?u) = rev ?u"
  proof (cases "?u = []")
    case True
    then show ?thesis by (metis dropWhile.simps(1) rev.simps(1))
  next
    case False
    then have "last ?u = last (rev ?t)" by (rule last_dropWhile)
    then have l: "last ?u = hd ?t" by (simp add: last_rev)
    from False have "?t \<noteq> []" by (metis dropWhile.simps(1) rev.simps(1))
    then have "\<not> isspace (hd ?t)" by (rule hd_dropWhile)
    with l have "\<not> isspace (hd (rev ?u))" by (simp add: hd_rev)
    then show ?thesis by (simp add: dropWhile_eq_self_iff)
  qed
  then show ?thesis by (simp add: strip_def)
qed

lemma trimmed_keys_new: "trimmed_keys new_glossary"
  by (simp add: trimmed_keys_def new_glossary_def)

lemma trimmed_keys_add_term: "trimmed_keys g \<Longrightarrow> trimmed_keys (add_term g original translated c)"
proof (cases "blank original")
  case True
  assume "trimmed_keys g"
  with True show ?thesis by (simp add: add_term_def blank_def)
next
  case False
  assume "trimmed_keys g"
  with False show ?thesis
    by (auto simp: trimmed_keys_def add_term_terms dom_update strip_idem not_blank_iff)
qed

lemma distinct_keys_add_term:
  "distinct (map fst (terms g)) \<Longrightarrow> distinct (map fst (terms (add_term g original translated c)))"
  by (cases "blank original")
     (auto simp: add_term_terms distinct_update, simp add: add_term_def blank_def)

lemma terms_merge_item:
  "terms (merge_item other_glossary pe (original, translated) g) = terms g \<or>
   terms (merge_item other_glossary pe (original, translated) g)
     = terms (add_term g original translated None)"
  by (auto simp: merge_item_def Let_def)

lemma trimmed_keys_terms: "terms g' = terms g \<Longrightarrow> trimmed_keys g \<Longrightarrow> trimmed_keys g'"
  by (simp add: trimmed_keys_def)

lemma invariant_merge_loop:
  "trimmed_keys g \<and> distinct (map fst (terms g)) \<Longrightarrow>
   trimmed_keys (merge_loop other_glossary pe items g) \<and>
   distinct (map fst (terms (merge_loop other_glossary pe items g)))"
proof (induction items arbitrary: g)
  case Nil
  then show ?case by simp
next
  case (Cons item rest)
  obtain original translated where item: "item = (original, translated)" by (cases item)
  let ?g = "merge_item other_glossary pe item g"
  from terms_merge_item [of other_glossary pe original translated g]
  have "trimmed_keys ?g \<and> distinct (map fst (terms ?g))"
  proof
    assume "terms (merge_item other_glossary pe (original, translated) g) = terms g"
    with Cons.prems item show ?thesis by (auto simp: trimmed_keys_def)
  next
    assume e: "terms (merge_item other_glossary pe (original, translated) g)
                 = terms (add_term g original translated None)"
    from Cons.prems have "trimmed_keys (add_term g original translated None)"
      "distinct (map fst (terms (add_term g original translated None)))"
      by (simp_all add: trimmed_keys_add_term distinct_keys_add_term)
    with e item show ?thesis by (auto simp: trimmed_keys_def)
  qed
  from Cons.IH [OF this] show ?case by simp
qed

lemma invariant_merge_glossary:
  "trimmed_keys g \<Longrightarrow> distinct (map fst (terms g)) \<Longrightarrow>
   trimmed_keys (merge_glossary g other_glossary pe) \<and>
   distinct (map fst (terms (merge_glossary g other_glossary pe)))"
  using invariant_merge_loop [of g other_glossary pe "get_all_terms other_glossary"]
  by (simp add: merge_glossary_def)

lemma trimmed_keys_no_collision:
  "trimmed_keys g \<Longrightarrow> k \<in> fst ` set (terms g) \<Longrightarrow>
   strip k = k \<and> (\<forall>k' \<in> fst ` set (terms g). k' \<noteq> k \<longrightarrow> strip k' \<noteq> k)"
  by (auto simp: trimmed_keys_def)

end
